theory Spec2Isabelle
  imports Complex_Main
begin

section \<open>JavaScript values and objects\<close>

text \<open>
  The data values that cross the facade: records to store, query options, results. Numbers
  are the integers (row counts and identities are all the facade handles). The universe
  holds no functions.
\<close>

datatype jsval =
    JUndefined
  | JNull
  | JBool bool
  | JNum int
  | JStr string
  | JArr "jsval list"
  | JObj "(string \<times> jsval) list"

text \<open>
  An object is the list of its own enumerable properties in insertion order, each key once.
\<close>

type_synonym 'v obj = "(string \<times> 'v) list"

text \<open>\<open>target[k] = v\<close> on own properties: an existing key keeps its place, a new one goes last.\<close>

fun put_property :: "'v obj \<Rightarrow> string \<Rightarrow> 'v \<Rightarrow> 'v obj" where
  "put_property [] k v = [(k, v)]"
| "put_property ((k', v') # ps) k v =
     (if k' = k then (k, v) # ps else (k', v') # put_property ps k v)"

text \<open>
  The object literal \<open>{ ...target, ...source }\<close>: the properties of \<open>source\<close> are written
  over those of \<open>target\<close>, in order.
\<close>

definition spread :: "'v obj \<Rightarrow> 'v obj \<Rightarrow> 'v obj" where
  "spread target source = fold (\<lambda>(k, v) acc. put_property acc k v) source target"

text \<open>A parameter with a default value: \<open>undefined\<close> (here \<open>None\<close>) takes the default.\<close>

definition default_arg :: "'a \<Rightarrow> 'a option \<Rightarrow> 'a" where
  "default_arg d a = (case a of None \<Rightarrow> d | Some v \<Rightarrow> v)"

text \<open>\<open>...options\<close> inside an object literal: spreading \<open>undefined\<close> adds nothing.\<close>

definition spread_opt :: "'v obj \<Rightarrow> 'v obj option \<Rightarrow> 'v obj" where
  "spread_opt target source = spread target (default_arg [] source)"

definition truthy :: "jsval \<Rightarrow> bool" where
  "truthy v = (case v of
       JUndefined \<Rightarrow> False
     | JNull \<Rightarrow> False
     | JBool b \<Rightarrow> b
     | JNum n \<Rightarrow> n \<noteq> 0
     | JStr s \<Rightarrow> s \<noteq> []
     | JArr _ \<Rightarrow> True
     | JObj _ \<Rightarrow> True)"

text \<open>
  \<open>String.prototype.toLowerCase\<close> belongs to the runtime and follows the Unicode case
  mappings. It is not defined here: \<open>createTable\<close>, the one place that calls it, takes it
  as the parameter \<open>toLowerCase\<close>. On a string of ASCII characters the runtime's function
  is the one below, which adds 32 to the code of a capital letter (codes 65 to 90, by
  setting bit 5); it serves to run \<open>createTable\<close> on names written in ASCII.
\<close>

definition ascii_lower_char :: "char \<Rightarrow> char" where
  "ascii_lower_char c =
     (if 65 \<le> (of_char c :: nat) \<and> (of_char c :: nat) \<le> 90
      then (case c of Char b0 b1 b2 b3 b4 b5 b6 b7 \<Rightarrow> Char b0 b1 b2 b3 b4 True b6 b7)
      else c)"

definition ascii_toLowerCase :: "string \<Rightarrow> string" where
  "ascii_toLowerCase s = map ascii_lower_char s"

subsection \<open>Own property keys in their enumeration order\<close>

text \<open>
  \<open>Object.keys\<close> lists the keys that are array indices (canonical decimal numerals below
  \<open>2^32 - 1\<close>) first, in ascending numeric order, then the other keys in insertion order.
\<close>

definition digit_val :: "char \<Rightarrow> nat" where
  "digit_val c = of_char c - 48"

definition is_digit :: "char \<Rightarrow> bool" where
  "is_digit c = (48 \<le> (of_char c :: nat) \<and> (of_char c :: nat) \<le> 57)"

definition decimal :: "string \<Rightarrow> nat" where
  "decimal s = fold (\<lambda>c n. 10 * n + digit_val c) s 0"

definition is_array_index :: "string \<Rightarrow> bool" where
  "is_array_index s =
     (s \<noteq> [] \<and> list_all is_digit s \<and> (s = ''0'' \<or> hd s \<noteq> CHR ''0'') \<and> length s \<le> 10
      \<and> decimal s < 4294967295)"

definition own_keys :: "'v obj \<Rightarrow> string list" where
  "own_keys ob =
     sort_key decimal (filter is_array_index (map fst ob))
     @ filter (\<lambda>k. \<not> is_array_index k) (map fst ob)"

section \<open>Table schemas\<close>

text \<open>
  The members of \<open>DataTypes\<close> the source names, and any other member by its name.
\<close>

datatype data_type = INTEGER | DATE | NOW | DataType string

text \<open>
  A value inside a column description: a member of \<open>DataTypes\<close> or a plain value.
\<close>

datatype attr_value = AType data_type | AVal jsval

text \<open>
  An entry of \<open>ModelAttributes\<close>: a bare data type, or a column-options object.
\<close>

datatype attribute = Shorthand data_type | Column "attr_value obj"

type_synonym schema = "attribute obj"

section \<open>The storage engine and the facade's state\<close>

text \<open>
  What a call of the facade can throw: its own \<open>Error("Table '...' not found")\<close>, a
  \<open>TypeError\<close> of the language, or whatever value the storage engine raised.
\<close>

datatype 'x thrown = TableNotFound string | TypeError | EngineError 'x

text \<open>
  Every call the facade makes on the storage engine (on the \<open>Sequelize\<close> instance or on a
  model handle \<open>'h\<close>), with the arguments it passes.
\<close>

datatype 'h call =
    Authenticate
  | Define string schema "jsval obj"
  | Sync bool
  | Create 'h "jsval obj" "jsval obj option"
  | BulkCreate 'h "jsval obj list" "jsval obj option"
  | FindAll 'h "jsval obj"
  | FindOne 'h "jsval obj"
  | FindByPk 'h int
  | Update 'h "jsval obj" "jsval obj"
  | Destroy 'h "jsval obj"
  | Count 'h "jsval obj"
  | Query string "jsval obj"
  | Close

text \<open>
  The storage engine is an external collaborator: each of its operations takes the engine's
  state \<open>'e\<close> and gives the new state with either the value raised (\<open>Inl\<close>) or the result.
\<close>

record ('e, 'h, 'x) engine =
  e_authenticate :: "'e \<Rightarrow> ('x + unit) \<times> 'e"
  e_define :: "string \<Rightarrow> schema \<Rightarrow> jsval obj \<Rightarrow> 'e \<Rightarrow> ('x + 'h) \<times> 'e"
  e_sync :: "bool \<Rightarrow> 'e \<Rightarrow> ('x + unit) \<times> 'e"
  e_create :: "'h \<Rightarrow> jsval obj \<Rightarrow> jsval obj option \<Rightarrow> 'e \<Rightarrow> ('x + jsval) \<times> 'e"
  e_bulkCreate :: "'h \<Rightarrow> jsval obj list \<Rightarrow> jsval obj option \<Rightarrow> 'e \<Rightarrow> ('x + jsval list) \<times> 'e"
  e_findAll :: "'h \<Rightarrow> jsval obj \<Rightarrow> 'e \<Rightarrow> ('x + jsval list) \<times> 'e"
  e_findOne :: "'h \<Rightarrow> jsval obj \<Rightarrow> 'e \<Rightarrow> ('x + jsval option) \<times> 'e"
  e_findByPk :: "'h \<Rightarrow> int \<Rightarrow> 'e \<Rightarrow> ('x + jsval option) \<times> 'e"
  e_update :: "'h \<Rightarrow> jsval obj \<Rightarrow> jsval obj \<Rightarrow> 'e \<Rightarrow> ('x + int) \<times> 'e"
  e_destroy :: "'h \<Rightarrow> jsval obj \<Rightarrow> 'e \<Rightarrow> ('x + int) \<times> 'e"
  e_count :: "'h \<Rightarrow> jsval obj \<Rightarrow> 'e \<Rightarrow> ('x + int) \<times> 'e"
  e_query :: "string \<Rightarrow> jsval obj \<Rightarrow> 'e \<Rightarrow> ('x + jsval \<times> jsval) \<times> 'e"
  e_close :: "'e \<Rightarrow> ('x + unit) \<times> 'e"
  e_rawAttributes :: "'h \<Rightarrow> 'e \<Rightarrow> jsval"
  e_associations :: "'h \<Rightarrow> 'e \<Rightarrow> jsval"

text \<open>The lines written to the console, by the text they carry.\<close>

datatype message =
    ConnectionEstablished
  | UnableToConnect
  | TableAlreadyDefined string
  | TableCreated string
  | AllTablesSynced
  | ErrorSyncing
  | DataInserted string
  | ErrorInserting string
  | RecordsInserted nat string
  | ErrorBulkInserting string
  | ErrorFinding string
  | ErrorFindingOne string
  | ErrorFindingById string
  | RecordsUpdated int string
  | ErrorUpdating string
  | RecordsDeleted int string
  | ErrorDeleting string
  | ErrorCounting string
  | ErrorRawQuery
  | ConnectionClosed
  | ErrorClosing

datatype 'x console_line = ConsoleLog message | ConsoleError message "'x thrown"

text \<open>
  A \<open>Database\<close> instance: its three fields, and beside them what it has written to the
  console and the sequence of calls it has made on the engine.
\<close>

record ('e, 'h, 'x) database =
  sequelize :: 'e
  models :: "'h obj"
  isConnected :: bool
  console :: "'x console_line list"
  calls :: "'h call list"

text \<open>
  The constructor, from the engine instance it builds out of its options: an empty
  registry, not connected.
\<close>

definition new_Database :: "'e \<Rightarrow> ('e, 'h, 'x) database" where
  "new_Database e =
     \<lparr>sequelize = e, models = [], isConnected = False, console = [], calls = []\<rparr>"

definition console_log :: "message \<Rightarrow> ('e, 'h, 'x) database \<Rightarrow> ('e, 'h, 'x) database" where
  "console_log m db = db\<lparr>console := console db @ [ConsoleLog m]\<rparr>"

definition console_error ::
  "message \<Rightarrow> 'x thrown \<Rightarrow> ('e, 'h, 'x) database \<Rightarrow> ('e, 'h, 'x) database" where
  "console_error m err db = db\<lparr>console := console db @ [ConsoleError m err]\<rparr>"

text \<open>One call on the engine: it is recorded, and the engine's state moves on.\<close>

definition invoke ::
  "'h call \<Rightarrow> ('e \<Rightarrow> ('x + 'r) \<times> 'e) \<Rightarrow> ('e, 'h, 'x) database
    \<Rightarrow> ('x + 'r) \<times> ('e, 'h, 'x) database" where
  "invoke c f db =
     (case f (sequelize db) of
        (r, e') \<Rightarrow> (r, db\<lparr>sequelize := e', calls := calls db @ [c]\<rparr>))"

section \<open>The registry \<open>this.models\<close>\<close>

text \<open>
  \<open>this.models\<close> starts as the object literal \<open>{}\<close>, whose prototype is
  \<open>Object.prototype\<close>. Reading \<open>this.models[tableName]\<close> gives the own property of that
  name, else the member of \<open>Object.prototype\<close> of that name, else \<open>undefined\<close>.
\<close>

definition object_prototype_keys :: "string list" where
  "object_prototype_keys =
     [''constructor'', ''__defineGetter__'', ''__defineSetter__'', ''hasOwnProperty'',
      ''__lookupGetter__'', ''__lookupSetter__'', ''isPrototypeOf'', ''propertyIsEnumerable'',
      ''toString'', ''valueOf'', ''__proto__'', ''toLocaleString'']"

datatype 'h property = Undefined | Model 'h | Inherited string

definition get_property :: "'h obj \<Rightarrow> string \<Rightarrow> 'h property" where
  "get_property ms tableName =
     (case map_of ms tableName of
        Some h \<Rightarrow> Model h
      | None \<Rightarrow> if tableName \<in> set object_prototype_keys then Inherited tableName else Undefined)"

section \<open>The operations of \<open>Database\<close>\<close>

text \<open>
  The methods of the class \<open>Database\<close> of \<open>src/index.ts\<close>, in the order of the source.
  Each takes the engine and the state before the call, and gives the value returned
  (\<open>Inr\<close>) or thrown (\<open>Inl\<close>) with the state after the call. A \<open>try\<close> block that logs and
  rethrows is the \<open>Inl\<close> branch of the engine call it wraps.
\<close>

text \<open>\<open>connect\<close> (lines 55 to 65) catches what \<open>authenticate\<close> raises.\<close>

definition connect ::
  "('e, 'h, 'x) engine \<Rightarrow> ('e, 'h, 'x) database \<Rightarrow> ('x thrown + bool) \<times> ('e, 'h, 'x) database" where
  "connect eng db =
     (case invoke Authenticate (e_authenticate eng) db of
        (Inr _, db') \<Rightarrow> (Inr True, console_log ConnectionEstablished (db'\<lparr>isConnected := True\<rparr>))
      | (Inl error, db') \<Rightarrow> (Inr False, console_error UnableToConnect (EngineError error) db'))"

text \<open>
  \<open>createTable\<close> (lines 67 to 101). A name that already resolves to something truthy is
  returned as it is. Otherwise the schema \<open>{ id, createdAt, updatedAt, ...schema }\<close> and
  the options \<open>{ tableName: tableName.toLowerCase(), ...options }\<close> go to \<open>define\<close>, and
  the handle is stored under \<open>tableName\<close>; an error of \<open>define\<close> is not caught.
\<close>

definition system_fields :: schema where
  "system_fields =
     [(''id'', Column [(''type'', AType INTEGER), (''primaryKey'', AVal (JBool True)),
                       (''autoIncrement'', AVal (JBool True))]),
      (''createdAt'', Column [(''type'', AType DATE), (''defaultValue'', AType NOW)]),
      (''updatedAt'', Column [(''type'', AType DATE), (''defaultValue'', AType NOW)])]"

definition defaultSchema :: "schema \<Rightarrow> schema" where
  "defaultSchema schema = spread system_fields schema"

definition define_options ::
  "(string \<Rightarrow> string) \<Rightarrow> string \<Rightarrow> jsval obj option \<Rightarrow> jsval obj" where
  "define_options toLowerCase tableName options =
     spread [(''tableName'', JStr (toLowerCase tableName))] (default_arg [] options)"

definition createTable ::
  "(string \<Rightarrow> string) \<Rightarrow> ('e, 'h, 'x) engine \<Rightarrow> string \<Rightarrow> schema \<Rightarrow> jsval obj option \<Rightarrow> ('e, 'h, 'x) database
    \<Rightarrow> ('x thrown + 'h property) \<times> ('e, 'h, 'x) database" where
  "createTable toLowerCase eng tableName schema options db =
     (case get_property (models db) tableName of
        Model h \<Rightarrow> (Inr (Model h), console_log (TableAlreadyDefined tableName) db)
      | Inherited m \<Rightarrow> (Inr (Inherited m), console_log (TableAlreadyDefined tableName) db)
      | Undefined \<Rightarrow>
          (case invoke (Define tableName (defaultSchema schema) (define_options toLowerCase tableName options))
                  (e_define eng tableName (defaultSchema schema) (define_options toLowerCase tableName options))
                  db of
             (Inl error, db') \<Rightarrow> (Inl (EngineError error), db')
           | (Inr h, db') \<Rightarrow>
               (Inr (Model h),
                console_log (TableCreated tableName)
                  (db'\<lparr>models := put_property (models db') tableName h\<rparr>))))"

definition syncTables ::
  "('e, 'h, 'x) engine \<Rightarrow> bool option \<Rightarrow> ('e, 'h, 'x) database
    \<Rightarrow> ('x thrown + bool) \<times> ('e, 'h, 'x) database" where
  "syncTables eng force db =
     (case invoke (Sync (default_arg False force)) (e_sync eng (default_arg False force)) db of
        (Inr _, db') \<Rightarrow> (Inr True, console_log AllTablesSynced db')
      | (Inl error, db') \<Rightarrow> (Inr False, console_error ErrorSyncing (EngineError error) db'))"

subsection \<open>Calls on a member inherited from \<open>Object.prototype\<close>\<close>

text \<open>
  \<open>ToPropertyDescriptor\<close> on a value of this universe: the flag \<open>enumerable\<close> and the
  value of the property described, or \<open>None\<close> where it throws a \<open>TypeError\<close> (the value
  is not an object, a getter or setter is given that is not callable, or an accessor is
  mixed with \<open>value\<close> or \<open>writable\<close>).
\<close>

fun to_property_descriptor :: "jsval \<Rightarrow> (bool \<times> jsval) option" where
  "to_property_descriptor (JObj fs) =
     (let getter = map_of fs ''get''; setter = map_of fs ''set'' in
      if (getter \<noteq> None \<and> getter \<noteq> Some JUndefined)
         \<or> (setter \<noteq> None \<and> setter \<noteq> Some JUndefined) then None
      else if (getter \<noteq> None \<or> setter \<noteq> None)
         \<and> (map_of fs ''value'' \<noteq> None \<or> map_of fs ''writable'' \<noteq> None) then None
      else Some (truthy (default_arg JUndefined (map_of fs ''enumerable'')),
                 default_arg JUndefined (map_of fs ''value'')))"
| "to_property_descriptor (JArr xs) = Some (False, JUndefined)"
| "to_property_descriptor v = None"

text \<open>
  \<open>Object.create(proto, properties)\<close> with an object for \<open>proto\<close>: a new object that
  inherits from \<open>proto\<close>. Its own enumerable properties are those that \<open>properties\<close>
  describes as enumerable, none when \<open>properties\<close> is \<open>undefined\<close>; a description that is
  not a property descriptor is a \<open>TypeError\<close>.
\<close>

definition Object_create :: "jsval obj \<Rightarrow> jsval obj option \<Rightarrow> 'x thrown + jsval" where
  "Object_create proto properties =
     (case properties of
        None \<Rightarrow> Inr (JObj [])
      | Some ps \<Rightarrow>
          if list_all (\<lambda>(k, d). to_property_descriptor d \<noteq> None) ps
          then Inr (JObj (concat (map (\<lambda>(k, d).
                  case to_property_descriptor d of
                    Some (True, v) \<Rightarrow> [(k, v)]
                  | _ \<Rightarrow> []) ps)))
          else Inl TypeError)"

text \<open>
  \<open>this.models[tableName].create(data, options)\<close> when \<open>this.models[tableName]\<close> is a
  member of \<open>Object.prototype\<close>: only \<open>constructor\<close>, which is \<open>Object\<close>, has a method
  \<open>create\<close>; on any other member the call is a \<open>TypeError\<close>. None of these members has
  \<open>bulkCreate\<close>, \<open>findAll\<close>, \<open>findOne\<close>, \<open>findByPk\<close>, \<open>update\<close>, \<open>destroy\<close> or
  \<open>count\<close>.
\<close>

definition inherited_create :: "string \<Rightarrow> jsval obj \<Rightarrow> jsval obj option \<Rightarrow> 'x thrown + jsval" where
  "inherited_create m data options =
     (if m = ''constructor'' then Object_create data options else Inl TypeError)"

subsection \<open>Create, read, update, delete\<close>

definition insert_op ::
  "('e, 'h, 'x) engine \<Rightarrow> string \<Rightarrow> jsval obj \<Rightarrow> jsval obj option \<Rightarrow> ('e, 'h, 'x) database
    \<Rightarrow> ('x thrown + jsval) \<times> ('e, 'h, 'x) database" where
  "insert_op eng tableName data options db =
     (case get_property (models db) tableName of
        Undefined \<Rightarrow> (Inl (TableNotFound tableName), db)
      | Model h \<Rightarrow>
          (case invoke (Create h data options) (e_create eng h data options) db of
             (Inr result, db') \<Rightarrow> (Inr result, console_log (DataInserted tableName) db')
           | (Inl error, db') \<Rightarrow>
               (Inl (EngineError error),
                console_error (ErrorInserting tableName) (EngineError error) db'))
      | Inherited m \<Rightarrow>
          (case inherited_create m data options of
             Inr result \<Rightarrow> (Inr result, console_log (DataInserted tableName) db)
           | Inl error \<Rightarrow> (Inl error, console_error (ErrorInserting tableName) error db)))"

definition insertMany ::
  "('e, 'h, 'x) engine \<Rightarrow> string \<Rightarrow> jsval obj list \<Rightarrow> jsval obj option \<Rightarrow> ('e, 'h, 'x) database
    \<Rightarrow> ('x thrown + jsval list) \<times> ('e, 'h, 'x) database" where
  "insertMany eng tableName dataArray options db =
     (case get_property (models db) tableName of
        Undefined \<Rightarrow> (Inl (TableNotFound tableName), db)
      | Model h \<Rightarrow>
          (case invoke (BulkCreate h dataArray options) (e_bulkCreate eng h dataArray options) db of
             (Inr results, db') \<Rightarrow>
               (Inr results, console_log (RecordsInserted (length results) tableName) db')
           | (Inl error, db') \<Rightarrow>
               (Inl (EngineError error),
                console_error (ErrorBulkInserting tableName) (EngineError error) db'))
      | Inherited m \<Rightarrow>
          (Inl TypeError, console_error (ErrorBulkInserting tableName) TypeError db))"

definition find_op ::
  "('e, 'h, 'x) engine \<Rightarrow> string \<Rightarrow> jsval obj option \<Rightarrow> ('e, 'h, 'x) database
    \<Rightarrow> ('x thrown + jsval list) \<times> ('e, 'h, 'x) database" where
  "find_op eng tableName options db =
     (case get_property (models db) tableName of
        Undefined \<Rightarrow> (Inl (TableNotFound tableName), db)
      | Model h \<Rightarrow>
          (case invoke (FindAll h (default_arg [] options))
                  (e_findAll eng h (default_arg [] options)) db of
             (Inr results, db') \<Rightarrow> (Inr results, db')
           | (Inl error, db') \<Rightarrow>
               (Inl (EngineError error),
                console_error (ErrorFinding tableName) (EngineError error) db'))
      | Inherited m \<Rightarrow> (Inl TypeError, console_error (ErrorFinding tableName) TypeError db))"

definition findOne ::
  "('e, 'h, 'x) engine \<Rightarrow> string \<Rightarrow> jsval obj option \<Rightarrow> ('e, 'h, 'x) database
    \<Rightarrow> ('x thrown + jsval option) \<times> ('e, 'h, 'x) database" where
  "findOne eng tableName options db =
     (case get_property (models db) tableName of
        Undefined \<Rightarrow> (Inl (TableNotFound tableName), db)
      | Model h \<Rightarrow>
          (case invoke (FindOne h (default_arg [] options))
                  (e_findOne eng h (default_arg [] options)) db of
             (Inr result, db') \<Rightarrow> (Inr result, db')
           | (Inl error, db') \<Rightarrow>
               (Inl (EngineError error),
                console_error (ErrorFindingOne tableName) (EngineError error) db'))
      | Inherited m \<Rightarrow> (Inl TypeError, console_error (ErrorFindingOne tableName) TypeError db))"

definition findById ::
  "('e, 'h, 'x) engine \<Rightarrow> string \<Rightarrow> int \<Rightarrow> ('e, 'h, 'x) database
    \<Rightarrow> ('x thrown + jsval option) \<times> ('e, 'h, 'x) database" where
  "findById eng tableName ident db =
     (case get_property (models db) tableName of
        Undefined \<Rightarrow> (Inl (TableNotFound tableName), db)
      | Model h \<Rightarrow>
          (case invoke (FindByPk h ident) (e_findByPk eng h ident) db of
             (Inr result, db') \<Rightarrow> (Inr result, db')
           | (Inl error, db') \<Rightarrow>
               (Inl (EngineError error),
                console_error (ErrorFindingById tableName) (EngineError error) db'))
      | Inherited m \<Rightarrow> (Inl TypeError, console_error (ErrorFindingById tableName) TypeError db))"

text \<open>The object literal \<open>{ where, ...options }\<close> that \<open>update\<close> and \<open>delete\<close> pass on.\<close>

definition where_options :: "jsval \<Rightarrow> jsval obj option \<Rightarrow> jsval obj" where
  "where_options wh options = spread_opt [(''where'', wh)] options"

definition update ::
  "('e, 'h, 'x) engine \<Rightarrow> string \<Rightarrow> jsval obj \<Rightarrow> jsval \<Rightarrow> jsval obj option
    \<Rightarrow> ('e, 'h, 'x) database \<Rightarrow> ('x thrown + int) \<times> ('e, 'h, 'x) database" where
  "update eng tableName data wh options db =
     (case get_property (models db) tableName of
        Undefined \<Rightarrow> (Inl (TableNotFound tableName), db)
      | Model h \<Rightarrow>
          (case invoke (Update h data (where_options wh options))
                  (e_update eng h data (where_options wh options)) db of
             (Inr affectedRows, db') \<Rightarrow>
               (Inr affectedRows, console_log (RecordsUpdated affectedRows tableName) db')
           | (Inl error, db') \<Rightarrow>
               (Inl (EngineError error),
                console_error (ErrorUpdating tableName) (EngineError error) db'))
      | Inherited m \<Rightarrow> (Inl TypeError, console_error (ErrorUpdating tableName) TypeError db))"

definition delete ::
  "('e, 'h, 'x) engine \<Rightarrow> string \<Rightarrow> jsval \<Rightarrow> jsval obj option \<Rightarrow> ('e, 'h, 'x) database
    \<Rightarrow> ('x thrown + int) \<times> ('e, 'h, 'x) database" where
  "delete eng tableName wh options db =
     (case get_property (models db) tableName of
        Undefined \<Rightarrow> (Inl (TableNotFound tableName), db)
      | Model h \<Rightarrow>
          (case invoke (Destroy h (where_options wh options))
                  (e_destroy eng h (where_options wh options)) db of
             (Inr deletedRows, db') \<Rightarrow>
               (Inr deletedRows, console_log (RecordsDeleted deletedRows tableName) db')
           | (Inl error, db') \<Rightarrow>
               (Inl (EngineError error),
                console_error (ErrorDeleting tableName) (EngineError error) db'))
      | Inherited m \<Rightarrow> (Inl TypeError, console_error (ErrorDeleting tableName) TypeError db))"

definition count ::
  "('e, 'h, 'x) engine \<Rightarrow> string \<Rightarrow> jsval obj option \<Rightarrow> ('e, 'h, 'x) database
    \<Rightarrow> ('x thrown + int) \<times> ('e, 'h, 'x) database" where
  "count eng tableName options db =
     (case get_property (models db) tableName of
        Undefined \<Rightarrow> (Inl (TableNotFound tableName), db)
      | Model h \<Rightarrow>
          (case invoke (Count h (default_arg [] options))
                  (e_count eng h (default_arg [] options)) db of
             (Inr n, db') \<Rightarrow> (Inr n, db')
           | (Inl error, db') \<Rightarrow>
               (Inl (EngineError error),
                console_error (ErrorCounting tableName) (EngineError error) db'))
      | Inherited m \<Rightarrow> (Inl TypeError, console_error (ErrorCounting tableName) TypeError db))"

definition query ::
  "('e, 'h, 'x) engine \<Rightarrow> string \<Rightarrow> jsval obj option \<Rightarrow> ('e, 'h, 'x) database
    \<Rightarrow> ('x thrown + jsval \<times> jsval) \<times> ('e, 'h, 'x) database" where
  "query eng sql options db =
     (case invoke (Query sql (default_arg [] options))
             (e_query eng sql (default_arg [] options)) db of
        (Inr (results, metadata), db') \<Rightarrow> (Inr (results, metadata), db')
      | (Inl error, db') \<Rightarrow>
          (Inl (EngineError error), console_error ErrorRawQuery (EngineError error) db'))"

subsection \<open>Inspection and shutdown\<close>

definition getTableInfo ::
  "('e, 'h, 'x) engine \<Rightarrow> string \<Rightarrow> ('e, 'h, 'x) database \<Rightarrow> jsval obj option" where
  "getTableInfo eng tableName db =
     (case get_property (models db) tableName of
        Undefined \<Rightarrow> None
      | Model h \<Rightarrow>
          Some [(''tableName'', JStr tableName),
                (''attributes'', e_rawAttributes eng h (sequelize db)),
                (''associations'', e_associations eng h (sequelize db))]
      | Inherited m \<Rightarrow>
          Some [(''tableName'', JStr tableName),
                (''attributes'', JUndefined),
                (''associations'', JUndefined)])"

definition getTables :: "('e, 'h, 'x) database \<Rightarrow> string list" where
  "getTables db = own_keys (models db)"

definition close ::
  "('e, 'h, 'x) engine \<Rightarrow> ('e, 'h, 'x) database \<Rightarrow> ('x thrown + unit) \<times> ('e, 'h, 'x) database" where
  "close eng db =
     (case invoke Close (e_close eng) db of
        (Inr _, db') \<Rightarrow> (Inr (), console_log ConnectionClosed (db'\<lparr>isConnected := False\<rparr>))
      | (Inl error, db') \<Rightarrow> (Inr (), console_error ErrorClosing (EngineError error) db'))"

definition getSequelize :: "('e, 'h, 'x) database \<Rightarrow> 'e" where
  "getSequelize db = sequelize db"

definition getModel :: "string \<Rightarrow> ('e, 'h, 'x) database \<Rightarrow> 'h property" where
  "getModel tableName db = get_property (models db) tableName"

subsection \<open>Sequences of calls\<close>

text \<open>The public methods of the class, as the calls a client can make.\<close>

datatype operation =
    Call_connect
  | Call_createTable string schema "jsval obj option"
  | Call_syncTables "bool option"
  | Call_insert string "jsval obj" "jsval obj option"
  | Call_insertMany string "jsval obj list" "jsval obj option"
  | Call_find string "jsval obj option"
  | Call_findOne string "jsval obj option"
  | Call_findById string int
  | Call_update string "jsval obj" jsval "jsval obj option"
  | Call_delete string jsval "jsval obj option"
  | Call_count string "jsval obj option"
  | Call_query string "jsval obj option"
  | Call_getTableInfo string
  | Call_getTables
  | Call_close
  | Call_getSequelize
  | Call_getModel string

text \<open>The state a call leaves behind, whether it returned or threw.\<close>

fun perform ::
  "(string \<Rightarrow> string) \<Rightarrow> ('e, 'h, 'x) engine \<Rightarrow> operation \<Rightarrow> ('e, 'h, 'x) database \<Rightarrow> ('e, 'h, 'x) database" where
  "perform toLowerCase eng Call_connect db = snd (connect eng db)"
| "perform toLowerCase eng (Call_createTable t s opts) db = snd (createTable toLowerCase eng t s opts db)"
| "perform toLowerCase eng (Call_syncTables force) db = snd (syncTables eng force db)"
| "perform toLowerCase eng (Call_insert t d opts) db = snd (insert_op eng t d opts db)"
| "perform toLowerCase eng (Call_insertMany t ds opts) db = snd (insertMany eng t ds opts db)"
| "perform toLowerCase eng (Call_find t opts) db = snd (find_op eng t opts db)"
| "perform toLowerCase eng (Call_findOne t opts) db = snd (findOne eng t opts db)"
| "perform toLowerCase eng (Call_findById t i) db = snd (findById eng t i db)"
| "perform toLowerCase eng (Call_update t d wh opts) db = snd (update eng t d wh opts db)"
| "perform toLowerCase eng (Call_delete t wh opts) db = snd (delete eng t wh opts db)"
| "perform toLowerCase eng (Call_count t opts) db = snd (count eng t opts db)"
| "perform toLowerCase eng (Call_query sql opts) db = snd (query eng sql opts db)"
| "perform toLowerCase eng (Call_getTableInfo t) db = db"
| "perform toLowerCase eng Call_getTables db = db"
| "perform toLowerCase eng Call_close db = snd (close eng db)"
| "perform toLowerCase eng Call_getSequelize db = db"
| "perform toLowerCase eng (Call_getModel t) db = db"

definition perform_all ::
  "(string \<Rightarrow> string) \<Rightarrow> ('e, 'h, 'x) engine \<Rightarrow> operation list \<Rightarrow> ('e, 'h, 'x) database \<Rightarrow> ('e, 'h, 'x) database" where
  "perform_all toLowerCase eng ops db = fold (perform toLowerCase eng) ops db"

subsection \<open>A storage engine to run the facade on\<close>

text \<open>
  An engine that only counts the calls made on it. While \<open>ok\<close> holds every call succeeds:
  \<open>define\<close> hands out the count as the new handle and the others give empty results;
  otherwise every call raises.
\<close>

definition answer :: "bool \<Rightarrow> 'r \<Rightarrow> nat \<Rightarrow> (string + 'r) \<times> nat" where
  "answer ok r e = (if ok then Inr r else Inl ''engine failure'', Suc e)"

definition counting_engine :: "bool \<Rightarrow> (nat, nat, string) engine" where
  "counting_engine ok =
     \<lparr>e_authenticate = answer ok (),
      e_define = (\<lambda>name attrs opts e. answer ok e e),
      e_sync = (\<lambda>force. answer ok ()),
      e_create = (\<lambda>h d opts. answer ok (JObj d)),
      e_bulkCreate = (\<lambda>h ds opts. answer ok (map JObj ds)),
      e_findAll = (\<lambda>h opts. answer ok []),
      e_findOne = (\<lambda>h opts. answer ok None),
      e_findByPk = (\<lambda>h i. answer ok None),
      e_update = (\<lambda>h d opts. answer ok 0),
      e_destroy = (\<lambda>h opts. answer ok 0),
      e_count = (\<lambda>h opts. answer ok 0),
      e_query = (\<lambda>sql opts. answer ok (JArr [], JNull)),
      e_close = answer ok (),
      e_rawAttributes = (\<lambda>h e. JObj []),
      e_associations = (\<lambda>h e. JObj [])\<rparr>"

subsection \<open>The state after an engine call that raised\<close>

text \<open>
  What a failed engine call leaves of a state \<open>db\<close>: the engine moved to \<open>e'\<close>, the call
  \<open>c\<close> is on record, and the console has one more error line with the value raised.
\<close>

definition engine_failed ::
  "'h call \<Rightarrow> message \<Rightarrow> 'x \<Rightarrow> 'e \<Rightarrow> ('e, 'h, 'x) database \<Rightarrow> ('e, 'h, 'x) database" where
  "engine_failed c m x e' db =
     db\<lparr>sequelize := e', calls := calls db @ [c],
        console := console db @ [ConsoleError m (EngineError x)]\<rparr>"

section \<open>Condition translation and paginated search\<close>

text \<open>
  Modelled from the spec: the Condition Specification, the Canonical Predicate and the
  translator between them (spec sections 3 and 4.2). The source files hold no translator
  and none of the search methods; what follows is written from the spec's text.
\<close>

datatype atom =
    Equals jsval
  | NotEquals jsval
  | GreaterThan jsval
  | GreaterOrEqual jsval
  | LessThan jsval
  | LessOrEqual jsval
  | PatternMatch bool jsval
  | MemberOf "jsval list"
  | RangeBetween jsval jsval

text \<open>
  A canonical predicate is the conjunction of its per-field constraints. The flag of
  \<open>PatternMatch\<close> says whether the match ignores case.
\<close>

type_synonym predicate = "(string \<times> atom) list"

datatype condition =
    ExactMatch "jsval obj"
  | TextMatch string string
  | OperatorMap "(jsval obj) obj"

datatype condition_spec = Plain condition | Paginated condition int int

datatype failure = TableNotRegistered | TranslationError

definition operator_names :: "string list" where
  "operator_names = [''gt'', ''gte'', ''lt'', ''lte'', ''ne'', ''like'', ''in'', ''between'']"

definition is_scalar :: "jsval \<Rightarrow> bool" where
  "is_scalar v = (case v of JArr _ \<Rightarrow> False | JObj _ \<Rightarrow> False | _ \<Rightarrow> True)"

text \<open>
  Modelled from the spec: one \<open>(operator, value)\<close> pair becomes one atomic constraint of
  the corresponding kind; \<open>between\<close> takes exactly two bounds, \<open>in\<close> a sequence of
  scalars, and an unknown operator name is a translation error.
\<close>

definition translate_operator :: "string \<Rightarrow> jsval \<Rightarrow> failure + atom" where
  "translate_operator opr v =
     (if opr = ''gt'' then Inr (GreaterThan v)
      else if opr = ''gte'' then Inr (GreaterOrEqual v)
      else if opr = ''lt'' then Inr (LessThan v)
      else if opr = ''lte'' then Inr (LessOrEqual v)
      else if opr = ''ne'' then Inr (NotEquals v)
      else if opr = ''like'' then Inr (PatternMatch False v)
      else if opr = ''in'' then
        (case v of
           JArr xs \<Rightarrow> if list_all is_scalar xs then Inr (MemberOf xs) else Inl TranslationError
         | _ \<Rightarrow> Inl TranslationError)
      else if opr = ''between'' then
        (case v of
           JArr [low, high] \<Rightarrow> Inr (RangeBetween low high)
         | _ \<Rightarrow> Inl TranslationError)
      else Inl TranslationError)"

text \<open>The first failure of a sequence of translations, else all their results.\<close>

fun collect :: "(failure + 'a) list \<Rightarrow> failure + 'a list" where
  "collect [] = Inr []"
| "collect (Inl e # rs) = Inl e"
| "collect (Inr x # rs) = (case collect rs of Inl e \<Rightarrow> Inl e | Inr xs \<Rightarrow> Inr (x # xs))"

definition translate_field :: "string \<times> jsval obj \<Rightarrow> (failure + string \<times> atom) list" where
  "translate_field entry =
     (case entry of (field, operators) \<Rightarrow>
        map (\<lambda>(opr, v). case translate_operator opr v of
                           Inl e \<Rightarrow> Inl e
                         | Inr a \<Rightarrow> Inr (field, a)) operators)"

text \<open>
  Modelled from the spec: an exact-match map gives one \<open>equals\<close> per pair; a text match
  gives one case-insensitive pattern match on \<open>%term%\<close>; an operator map gives one
  constraint per operator of every field.
\<close>

fun translate_condition :: "condition \<Rightarrow> failure + predicate" where
  "translate_condition (ExactMatch m) = Inr (map (\<lambda>(field, v). (field, Equals v)) m)"
| "translate_condition (TextMatch field needle) =
     Inr [(field, PatternMatch True (JStr (''%'' @ needle @ ''%'')))]"
| "translate_condition (OperatorMap m) = collect (concat (map translate_field m))"

text \<open>
  Modelled from the spec: the paginated wrapper translates the inner condition and
  returns beside it \<open>(offset, limit) = ((page - 1) * pageSize, pageSize)\<close>; a page or page
  size that is not positive is a translation error.
\<close>

fun translate :: "condition_spec \<Rightarrow> failure + predicate \<times> (int \<times> int) option" where
  "translate (Plain c) =
     (case translate_condition c of Inl e \<Rightarrow> Inl e | Inr p \<Rightarrow> Inr (p, None))"
| "translate (Paginated c page pageSize) =
     (case translate_condition c of
        Inl e \<Rightarrow> Inl e
      | Inr p \<Rightarrow>
          if 0 < page \<and> 0 < pageSize then Inr (p, Some ((page - 1) * pageSize, pageSize))
          else Inl TranslationError)"

record 'r pagination_result =
  data :: "'r list"
  total_count :: int
  page :: int
  pages :: int
  hasMore :: bool


text \<open>
  The \<open>(operator, value)\<close> pairs a condition holds, and the pairs the translator takes: a
  name of the eight, with two bounds for \<open>between\<close> and a sequence of scalars for \<open>in\<close>.
\<close>

fun operators_of :: "condition \<Rightarrow> (string \<times> jsval) list" where
  "operators_of (OperatorMap m) = concat (map snd m)"
| "operators_of c = []"

definition accepted_operator :: "string \<times> jsval \<Rightarrow> bool" where
  "accepted_operator entry =
     (case entry of (opr, v) \<Rightarrow>
        opr \<in> set operator_names
        \<and> (opr = ''between'' \<longrightarrow> (case v of JArr [low, high] \<Rightarrow> True | _ \<Rightarrow> False))
        \<and> (opr = ''in'' \<longrightarrow> (case v of JArr xs \<Rightarrow> list_all is_scalar xs | _ \<Rightarrow> False)))"



section \<open>Properties of the registry\<close>

lemma map_of_put_property:
  "map_of (put_property ms k v) = (map_of ms)(k \<mapsto> v)"
  by (induction ms) (auto simp: fun_eq_iff)

lemma get_property_put_property:
  "get_property (put_property ms k h) k = Model h"
  by (simp add: get_property_def map_of_put_property)

lemmas run_defs = createTable_def get_property_def object_prototype_keys_def invoke_def
  counting_engine_def answer_def console_log_def console_error_def new_Database_def
  defaultSchema_def define_options_def spread_def default_arg_def system_fields_def
  ascii_toLowerCase_def ascii_lower_char_def

lemma fold_put_property:
  "map_of (fold (\<lambda>(k, v) acc. put_property acc k v) source target)
     = fold (\<lambda>(k, v) m. m(k \<mapsto> v)) source (map_of target)"
  by (induction source arbitrary: target) (auto simp: map_of_put_property)

lemma fold_upd_distinct:
  "distinct (map fst source) \<Longrightarrow>
   fold (\<lambda>(k, v) m. m(k \<mapsto> v)) source m = m ++ map_of source"
proof (induction source arbitrary: m)
  case Nil
  then show ?case by simp
next
  case (Cons p source)
  obtain k v where p: "p = (k, v)" by (cases p)
  from Cons.prems p have fresh: "map_of source k = None"
    by (simp add: map_of_eq_None_iff)
  from Cons.prems have d: "distinct (map fst source)" by simp
  have "fold (\<lambda>(k, v) m. m(k \<mapsto> v)) (p # source) m
      = fold (\<lambda>(k, v) m. m(k \<mapsto> v)) source (m(k \<mapsto> v))"
    by (simp add: p)
  also have "\<dots> = (m(k \<mapsto> v)) ++ map_of source"
    by (rule Cons.IH [OF d])
  also have "\<dots> = m ++ map_of (p # source)"
    using fresh p by (auto simp: map_add_def fun_eq_iff split: option.splits)
  finally show ?case .
qed

lemma map_of_spread:
  "distinct (map fst source) \<Longrightarrow> map_of (spread target source) = map_of target ++ map_of source"
  by (simp add: spread_def fold_put_property fold_upd_distinct)

lemma keys_put_property:
  "map fst (put_property ms k v) = (if k \<in> set (map fst ms) then map fst ms else map fst ms @ [k])"
  by (induction ms) force+

lemma keys_spread:
  "distinct (map fst source) \<Longrightarrow>
   map fst (spread target source)
     = map fst target @ filter (\<lambda>k. k \<notin> set (map fst target)) (map fst source)"
proof (induction source arbitrary: target)
  case Nil
  then show ?case by (simp add: spread_def)
next
  case (Cons p source)
  obtain k v where p: "p = (k, v)" by (cases p)
  have step: "spread target (p # source) = spread (put_property target k v) source"
    by (simp add: spread_def p)
  from Cons.prems p have k: "k \<notin> set (map fst source)" and d: "distinct (map fst source)"
    by auto
  have same: "filter (\<lambda>k'. k' \<notin> set (map fst (put_property target k v))) (map fst source)
     = filter (\<lambda>k'. k' \<notin> set (map fst target)) (map fst source)"
    using k by (intro filter_cong) (auto simp: keys_put_property)
  show ?case
    unfolding step Cons.IH [OF d] same
    by (simp add: keys_put_property p)
qed


text \<open>
  C1. When a call of \<open>createTable\<close> has returned, a second call with the same table name
  and any schema and options returns the same handle, makes no call on the engine and
  leaves the registry as it is: it only writes one line to the console.
\<close>

theorem createTable_idempotent:
  "createTable toLowerCase eng tableName schema1 options1 db = (Inr r, db1) \<Longrightarrow>
   createTable toLowerCase eng tableName schema2 options2 db1 =
     (Inr r, db1\<lparr>console := console db1 @ [ConsoleLog (TableAlreadyDefined tableName)]\<rparr>)"
  by (auto simp: createTable_def console_log_def invoke_def get_property_put_property
           split: property.splits prod.splits sum.splits)


theorem createTable_idempotent_witness:
  "createTable ascii_toLowerCase (counting_engine True) ''User'' [(''name'', Shorthand (DataType ''STRING''))] None
     (new_Database 0)
   = (Inr (Model 0),
      \<lparr>sequelize = 1, models = [(''User'', 0)], isConnected = False,
       console = [ConsoleLog (TableCreated ''User'')],
       calls = [Define ''User''
                  (system_fields @ [(''name'', Shorthand (DataType ''STRING''))])
                  [(''tableName'', JStr ''user'')]]\<rparr>)
   \<and> createTable ascii_toLowerCase (counting_engine True) ''User'' [(''id'', Shorthand (DataType ''STRING''))] None
       \<lparr>sequelize = 1, models = [(''User'', 0)], isConnected = False,
        console = [ConsoleLog (TableCreated ''User'')],
        calls = [Define ''User''
                   (system_fields @ [(''name'', Shorthand (DataType ''STRING''))])
                   [(''tableName'', JStr ''user'')]]\<rparr>
     = (Inr (Model 0),
        \<lparr>sequelize = 1, models = [(''User'', 0)], isConnected = False,
         console = [ConsoleLog (TableCreated ''User''), ConsoleLog (TableAlreadyDefined ''User'')],
         calls = [Define ''User''
                    (system_fields @ [(''name'', Shorthand (DataType ''STRING''))])
                    [(''tableName'', JStr ''user'')]]\<rparr>)"
proof -
  have first:
    "createTable ascii_toLowerCase (counting_engine True) ''User'' [(''name'', Shorthand (DataType ''STRING''))] None
       (new_Database 0)
     = (Inr (Model 0),
        \<lparr>sequelize = 1, models = [(''User'', 0)], isConnected = False,
         console = [ConsoleLog (TableCreated ''User'')],
         calls = [Define ''User''
                    (system_fields @ [(''name'', Shorthand (DataType ''STRING''))])
                    [(''tableName'', JStr ''user'')]]\<rparr>)"
    by (simp add: run_defs)
  from createTable_idempotent [OF first, of "[(''id'', Shorthand (DataType ''STRING''))]" None] first
  show ?thesis by simp
qed

lemma array_index_not_system_field:
  "is_array_index k \<Longrightarrow> k \<notin> {''id'', ''createdAt'', ''updatedAt''}"
  by (auto simp: is_array_index_def is_digit_def)

lemma own_keys_defaultSchema:
  assumes "distinct (map fst schema)"
  shows "own_keys (defaultSchema schema)
           = sort_key decimal (filter is_array_index (map fst schema))
             @ [''id'', ''createdAt'', ''updatedAt'']
             @ filter (\<lambda>k. \<not> is_array_index k \<and> k \<notin> {''id'', ''createdAt'', ''updatedAt''})
                 (map fst schema)"
proof -
  let ?system = "[''id'', ''createdAt'', ''updatedAt'']"
  let ?fresh = "\<lambda>k. k \<notin> {''id'', ''createdAt'', ''updatedAt''}"
  have fields: "map fst system_fields = ?system"
    by (simp add: system_fields_def)
  have keys: "map fst (defaultSchema schema) = ?system @ filter ?fresh (map fst schema)"
    unfolding defaultSchema_def keys_spread [OF assms] fields by simp
  have no_index: "filter is_array_index ?system = []"
    by (simp add: is_array_index_def is_digit_def)
  have indices: "filter is_array_index (filter ?fresh (map fst schema))
      = filter is_array_index (map fst schema)"
    unfolding filter_filter
    by (rule filter_cong) (use array_index_not_system_field in auto)
  have others: "filter (\<lambda>k. \<not> is_array_index k) (filter ?fresh (map fst schema))
      = filter (\<lambda>k. \<not> is_array_index k \<and> ?fresh k) (map fst schema)"
    unfolding filter_filter by (rule filter_cong) auto
  have rest: "filter (\<lambda>k. \<not> is_array_index k) ?system = ?system"
    by (simp add: is_array_index_def is_digit_def)
  show ?thesis
    unfolding own_keys_def keys filter_append no_index indices others rest by simp
qed

text \<open>
  C2. When the table name does not resolve yet, \<open>createTable\<close> calls \<open>define\<close> once, with
  the three system fields (\<open>id\<close>: integer, primary key, auto-increment; \<open>createdAt\<close> and
  \<open>updatedAt\<close>: dates defaulting to now) merged with the caller's fields, and the handle
  that \<open>define\<close> returns for that schema is the one stored in the registry under the
  table name and returned; when \<open>define\<close> raises, nothing is stored. When the name already
  resolves, no schema reaches the engine. In the merged schema a field the caller declares
  has the caller's descriptor, also when it is one of the three; any other field has the
  system descriptor, if there is one. Its keys enumerate as any object's do: the caller's
  array-index keys in ascending order, then the three system fields, then the caller's
  other fields in the caller's order.
\<close>

theorem createTable_merges_system_fields:
  assumes "distinct (map fst schema)"
  shows "(get_property (models db) tableName = Undefined \<longrightarrow>
            (\<forall>h e'. e_define eng tableName (defaultSchema schema)
                       (define_options toLowerCase tableName options) (sequelize db) = (Inr h, e')
               \<longrightarrow> createTable toLowerCase eng tableName schema options db
                     = (Inr (Model h),
                        db\<lparr>sequelize := e',
                           calls := calls db @ [Define tableName (defaultSchema schema)
                                                  (define_options toLowerCase tableName options)],
                           models := put_property (models db) tableName h,
                           console := console db @ [ConsoleLog (TableCreated tableName)]\<rparr>)
                   \<and> getModel tableName
                         (snd (createTable toLowerCase eng tableName schema options db))
                       = Model h)
            \<and> (\<forall>x e'. e_define eng tableName (defaultSchema schema)
                         (define_options toLowerCase tableName options) (sequelize db) = (Inl x, e')
                 \<longrightarrow> createTable toLowerCase eng tableName schema options db
                       = (Inl (EngineError x),
                          db\<lparr>sequelize := e',
                             calls := calls db @ [Define tableName (defaultSchema schema)
                                                    (define_options toLowerCase tableName options)]\<rparr>)))
         \<and> (get_property (models db) tableName \<noteq> Undefined \<longrightarrow>
               calls (snd (createTable toLowerCase eng tableName schema options db)) = calls db
               \<and> models (snd (createTable toLowerCase eng tableName schema options db)) = models db)
         \<and> system_fields
             = [(''id'', Column [(''type'', AType INTEGER), (''primaryKey'', AVal (JBool True)),
                                 (''autoIncrement'', AVal (JBool True))]),
                (''createdAt'', Column [(''type'', AType DATE), (''defaultValue'', AType NOW)]),
                (''updatedAt'', Column [(''type'', AType DATE), (''defaultValue'', AType NOW)])]
         \<and> map_of (defaultSchema schema) field
             = (case map_of schema field of
                  Some descriptor \<Rightarrow> Some descriptor
                | None \<Rightarrow> map_of system_fields field)
         \<and> own_keys (defaultSchema schema)
             = sort_key decimal (filter is_array_index (map fst schema))
               @ [''id'', ''createdAt'', ''updatedAt'']
               @ filter (\<lambda>k. \<not> is_array_index k \<and> k \<notin> {''id'', ''createdAt'', ''updatedAt''})
                   (map fst schema)"
proof -
  let ?merged = "defaultSchema schema"
  let ?options = "define_options toLowerCase tableName options"
  let ?run = "createTable toLowerCase eng tableName schema options db"
  have registers: "?run
        = (Inr (Model h),
           db\<lparr>sequelize := e', calls := calls db @ [Define tableName ?merged ?options],
              models := put_property (models db) tableName h,
              console := console db @ [ConsoleLog (TableCreated tableName)]\<rparr>)
      \<and> getModel tableName (snd ?run) = Model h"
    if "get_property (models db) tableName = Undefined"
      and "e_define eng tableName ?merged ?options (sequelize db) = (Inr h, e')" for h e'
    using that
    by (simp add: createTable_def invoke_def console_log_def getModel_def
          get_property_put_property)
  have raises: "?run
        = (Inl (EngineError x),
           db\<lparr>sequelize := e', calls := calls db @ [Define tableName ?merged ?options]\<rparr>)"
    if "get_property (models db) tableName = Undefined"
      and "e_define eng tableName ?merged ?options (sequelize db) = (Inl x, e')" for x e'
    using that by (simp add: createTable_def invoke_def)
  have known: "calls (snd ?run) = calls db \<and> models (snd ?run) = models db"
    if "get_property (models db) tableName \<noteq> Undefined"
    using that
    by (cases "get_property (models db) tableName")
       (simp_all add: createTable_def console_log_def)
  have lookup: "map_of ?merged field
      = (case map_of schema field of
           Some descriptor \<Rightarrow> Some descriptor
         | None \<Rightarrow> map_of system_fields field)"
    by (simp add: defaultSchema_def map_of_spread [OF assms] map_add_def)
  note order = own_keys_defaultSchema [OF assms]
  have first_time: "get_property (models db) tableName = Undefined \<longrightarrow>
      (\<forall>h e'. e_define eng tableName ?merged ?options (sequelize db) = (Inr h, e')
         \<longrightarrow> ?run
               = (Inr (Model h),
                  db\<lparr>sequelize := e', calls := calls db @ [Define tableName ?merged ?options],
                     models := put_property (models db) tableName h,
                     console := console db @ [ConsoleLog (TableCreated tableName)]\<rparr>)
             \<and> getModel tableName (snd ?run) = Model h)
      \<and> (\<forall>x e'. e_define eng tableName ?merged ?options (sequelize db) = (Inl x, e')
           \<longrightarrow> ?run
                 = (Inl (EngineError x),
                    db\<lparr>sequelize := e',
                       calls := calls db @ [Define tableName ?merged ?options]\<rparr>))"
    using registers raises by blast
  have again: "get_property (models db) tableName \<noteq> Undefined \<longrightarrow>
      calls (snd ?run) = calls db \<and> models (snd ?run) = models db"
    using known by blast
  have system: "system_fields
      = [(''id'', Column [(''type'', AType INTEGER), (''primaryKey'', AVal (JBool True)),
                          (''autoIncrement'', AVal (JBool True))]),
         (''createdAt'', Column [(''type'', AType DATE), (''defaultValue'', AType NOW)]),
         (''updatedAt'', Column [(''type'', AType DATE), (''defaultValue'', AType NOW)])]"
    by (simp add: system_fields_def)
  from first_time again system lookup order show ?thesis
    by (intro conjI)
qed

theorem createTable_merges_system_fields_witness:
  "createTable ascii_toLowerCase (counting_engine True) ''User''
     [(''id'', Shorthand (DataType ''STRING'')), (''1'', Shorthand (DataType ''TEXT'')),
      (''email'', Shorthand (DataType ''STRING''))]
     None (new_Database 0)
     = (Inr (Model 0),
        \<lparr>sequelize = 1, models = [(''User'', 0)], isConnected = False,
         console = [ConsoleLog (TableCreated ''User'')],
         calls = [Define ''User''
                    [(''id'', Shorthand (DataType ''STRING'')),
                     (''createdAt'', Column [(''type'', AType DATE), (''defaultValue'', AType NOW)]),
                     (''updatedAt'', Column [(''type'', AType DATE), (''defaultValue'', AType NOW)]),
                     (''1'', Shorthand (DataType ''TEXT'')),
                     (''email'', Shorthand (DataType ''STRING''))]
                    [(''tableName'', JStr ''user'')]]\<rparr>)
   \<and> map_of (defaultSchema [(''id'', Shorthand (DataType ''STRING'')),
                             (''1'', Shorthand (DataType ''TEXT'')),
                             (''email'', Shorthand (DataType ''STRING''))]) ''id''
       = Some (Shorthand (DataType ''STRING''))
   \<and> own_keys (defaultSchema [(''id'', Shorthand (DataType ''STRING'')),
                               (''1'', Shorthand (DataType ''TEXT'')),
                               (''email'', Shorthand (DataType ''STRING''))])
       = [''1'', ''id'', ''createdAt'', ''updatedAt'', ''email'']"
proof -
  let ?schema = "[(''id'', Shorthand (DataType ''STRING'')), (''1'', Shorthand (DataType ''TEXT'')),
                  (''email'', Shorthand (DataType ''STRING''))]"
  let ?db = "new_Database 0 :: (nat, nat, string) database"
  have keys: "distinct (map fst ?schema)"
    by simp
  have unregistered: "get_property (models ?db) ''User'' = Undefined"
    by (simp add: get_property_def new_Database_def object_prototype_keys_def)
  have merged: "defaultSchema ?schema
      = [(''id'', Shorthand (DataType ''STRING'')),
         (''createdAt'', Column [(''type'', AType DATE), (''defaultValue'', AType NOW)]),
         (''updatedAt'', Column [(''type'', AType DATE), (''defaultValue'', AType NOW)]),
         (''1'', Shorthand (DataType ''TEXT'')),
         (''email'', Shorthand (DataType ''STRING''))]"
    by (simp add: defaultSchema_def spread_def system_fields_def)
  have storage: "define_options ascii_toLowerCase ''User'' None = [(''tableName'', JStr ''user'')]"
    by (simp add: define_options_def spread_def default_arg_def ascii_toLowerCase_def
          ascii_lower_char_def)
  have defined:
    "e_define (counting_engine True) ''User'' (defaultSchema ?schema)
       (define_options ascii_toLowerCase ''User'' None) (sequelize ?db) = (Inr 0, 1)"
    by (simp add: counting_engine_def answer_def new_Database_def)
  have indices: "filter is_array_index (map fst ?schema) = [''1'']"
    by (simp add: is_array_index_def is_digit_def decimal_def digit_val_def)
  have others: "filter (\<lambda>k. \<not> is_array_index k \<and> k \<notin> {''id'', ''createdAt'', ''updatedAt''})
                  (map fst ?schema) = [''email'']"
    by (simp add: is_array_index_def is_digit_def decimal_def digit_val_def)
  note fact = createTable_merges_system_fields [OF keys,
      where db = ?db and tableName = "''User''" and eng = "counting_engine True"
        and toLowerCase = ascii_toLowerCase and options = None and field = "''id''"]
  from fact unregistered defined
  have run: "createTable ascii_toLowerCase (counting_engine True) ''User'' ?schema None ?db
      = (Inr (Model 0),
         ?db\<lparr>sequelize := 1,
             calls := calls ?db @ [Define ''User'' (defaultSchema ?schema)
                                     (define_options ascii_toLowerCase ''User'' None)],
             models := put_property (models ?db) ''User'' 0,
             console := console ?db @ [ConsoleLog (TableCreated ''User'')]\<rparr>)"
    by blast
  from fact
  have lookup: "map_of (defaultSchema ?schema) ''id''
      = (case map_of ?schema ''id'' of
           Some descriptor \<Rightarrow> Some descriptor
         | None \<Rightarrow> map_of system_fields ''id'')"
    by blast
  from fact
  have order: "own_keys (defaultSchema ?schema)
      = sort_key decimal (filter is_array_index (map fst ?schema))
        @ [''id'', ''createdAt'', ''updatedAt'']
        @ filter (\<lambda>k. \<not> is_array_index k \<and> k \<notin> {''id'', ''createdAt'', ''updatedAt''})
            (map fst ?schema)"
    by blast
  have "createTable ascii_toLowerCase (counting_engine True) ''User'' ?schema None ?db
      = (Inr (Model 0),
         \<lparr>sequelize = 1, models = [(''User'', 0)], isConnected = False,
          console = [ConsoleLog (TableCreated ''User'')],
          calls = [Define ''User''
                     [(''id'', Shorthand (DataType ''STRING'')),
                      (''createdAt'', Column [(''type'', AType DATE), (''defaultValue'', AType NOW)]),
                      (''updatedAt'', Column [(''type'', AType DATE), (''defaultValue'', AType NOW)]),
                      (''1'', Shorthand (DataType ''TEXT'')),
                      (''email'', Shorthand (DataType ''STRING''))]
                     [(''tableName'', JStr ''user'')]]\<rparr>)"
    unfolding run merged storage by (simp add: new_Database_def)
  moreover have "map_of (defaultSchema ?schema) ''id'' = Some (Shorthand (DataType ''STRING''))"
    unfolding lookup by simp
  moreover have "own_keys (defaultSchema ?schema)
      = [''1'', ''id'', ''createdAt'', ''updatedAt'', ''email'']"
    unfolding order indices others by simp
  ultimately show ?thesis by simp
qed

text \<open>
  C8 as stated fails: options that carry a \<open>tableName\<close> of their own replace the
  lower-cased name in what \<open>define\<close> receives.
\<close>

theorem createTable_storage_name_counterexample:
  "calls (snd (createTable ascii_toLowerCase (counting_engine True) ''User'' []
                 (Some [(''tableName'', JStr ''Accounts'')]) (new_Database 0)))
     = [Define ''User'' system_fields [(''tableName'', JStr ''Accounts'')]]
   \<and> JStr ''Accounts'' \<noteq> JStr (ascii_toLowerCase ''User'')"
  by (simp add: run_defs)

text \<open>On ASCII capitals the sample lower-casing adds 32; it changes no other code.\<close>

lemma ascii_toLowerCase_codes:
  "map of_char (ascii_toLowerCase s)
     = map (\<lambda>c. if 65 \<le> (of_char c :: nat) \<and> (of_char c :: nat) \<le> 90
                 then of_char c + 32 else (of_char c :: nat)) s"
proof -
  have "of_char (ascii_lower_char c)
      = (if 65 \<le> (of_char c :: nat) \<and> (of_char c :: nat) \<le> 90
         then of_char c + 32 else (of_char c :: nat))" for c
    by (cases c) (auto simp: ascii_lower_char_def)
  then show ?thesis by (simp add: ascii_toLowerCase_def)
qed

text \<open>
  C8, amended. On the first registration of a table name, \<open>define\<close> is called once, with
  the options \<open>{ tableName: tableName.toLowerCase(), ...options }\<close>: the storage table name
  is what the runtime's \<open>toLowerCase\<close> gives for the table name, unless the caller's
  options carry a \<open>tableName\<close> of their own, which then stands. When \<open>define\<close> returns a
  handle, the registry holds it under the table name as the caller wrote it, and every
  other name resolves as before.
\<close>

theorem createTable_storage_name:
  assumes "get_property (models db) tableName = Undefined"
    and "distinct (map fst (default_arg [] options))"
    and "e_define eng tableName (defaultSchema schema) (define_options toLowerCase tableName options)
           (sequelize db) = (Inr h, e')"
  shows "calls (snd (createTable toLowerCase eng tableName schema options db))
           = calls db @ [Define tableName (defaultSchema schema) (define_options toLowerCase tableName options)]
         \<and> map_of (define_options toLowerCase tableName options) ''tableName''
             = (case map_of (default_arg [] options) ''tableName'' of
                  Some v \<Rightarrow> Some v
                | None \<Rightarrow> Some (JStr (toLowerCase tableName)))
         \<and> fst (createTable toLowerCase eng tableName schema options db) = Inr (Model h)
         \<and> getModel tableName (snd (createTable toLowerCase eng tableName schema options db)) = Model h
         \<and> (\<forall>other. other \<noteq> tableName \<longrightarrow>
               getModel other (snd (createTable toLowerCase eng tableName schema options db))
                 = getModel other db)"
proof -
  let ?after = "snd (createTable toLowerCase eng tableName schema options db)"
  have run: "createTable toLowerCase eng tableName schema options db
      = (Inr (Model h),
         console_log (TableCreated tableName)
           (db\<lparr>sequelize := e',
               calls := calls db @ [Define tableName (defaultSchema schema)
                                      (define_options toLowerCase tableName options)],
               models := put_property (models db) tableName h\<rparr>))"
    using assms(1,3) by (simp add: createTable_def invoke_def)
  have trace: "calls ?after
      = calls db @ [Define tableName (defaultSchema schema) (define_options toLowerCase tableName options)]"
    by (simp add: run console_log_def)
  have name: "map_of (define_options toLowerCase tableName options) ''tableName''
      = (case map_of (default_arg [] options) ''tableName'' of
           Some v \<Rightarrow> Some v
         | None \<Rightarrow> Some (JStr (toLowerCase tableName)))"
    by (simp add: define_options_def map_of_spread [OF assms(2)] map_add_def
          split: option.splits)
  have result: "fst (createTable toLowerCase eng tableName schema options db) = Inr (Model h)"
    by (simp add: run)
  have stored: "getModel tableName ?after = Model h"
    by (simp add: run getModel_def console_log_def get_property_put_property)
  have others: "getModel other ?after = getModel other db" if "other \<noteq> tableName" for other
    using that
    by (simp add: run getModel_def console_log_def get_property_def map_of_put_property)
  from trace name result stored others show ?thesis by blast
qed

theorem createTable_storage_name_witness:
  "calls (snd (createTable ascii_toLowerCase (counting_engine True) ''UserProfile'' []
                 (Some [(''timestamps'', JBool False)]) (new_Database 0)))
     = [Define ''UserProfile'' system_fields
          [(''tableName'', JStr ''userprofile''), (''timestamps'', JBool False)]]
   \<and> getModel ''UserProfile''
        (snd (createTable ascii_toLowerCase (counting_engine True) ''UserProfile'' []
                (Some [(''timestamps'', JBool False)]) (new_Database 0))) = Model 0
   \<and> getModel ''userprofile''
        (snd (createTable ascii_toLowerCase (counting_engine True) ''UserProfile'' []
                (Some [(''timestamps'', JBool False)]) (new_Database 0))) = Undefined"
proof -
  let ?db = "new_Database 0 :: (nat, nat, string) database"
  let ?options = "Some [(''timestamps'', JBool False)]"
  have unregistered: "get_property (models ?db) ''UserProfile'' = Undefined"
    by (simp add: get_property_def new_Database_def object_prototype_keys_def)
  have keys: "distinct (map fst (default_arg [] ?options))"
    by (simp add: default_arg_def)
  have defined:
    "e_define (counting_engine True) ''UserProfile'' (defaultSchema [])
       (define_options ascii_toLowerCase ''UserProfile'' ?options) (sequelize ?db) = (Inr 0, 1)"
    by (simp add: counting_engine_def answer_def new_Database_def)
  have "getModel ''userprofile'' ?db = Undefined"
    by (simp add: getModel_def get_property_def new_Database_def object_prototype_keys_def)
  with createTable_storage_name [OF unregistered keys defined]
  show ?thesis
    by (simp add: define_options_def defaultSchema_def spread_def default_arg_def
          ascii_toLowerCase_def ascii_lower_char_def new_Database_def)
qed

section \<open>Properties of the connection\<close>

text \<open>
  C6. \<open>connect\<close> never throws, it returns a boolean. When \<open>authenticate\<close> succeeds it
  returns \<open>true\<close>, sets \<open>isConnected\<close> and logs one line. When \<open>authenticate\<close> raises it
  returns \<open>false\<close> after one line on the error console, and \<open>isConnected\<close> keeps its
  value: a database that was disconnected remains so.
\<close>

theorem connect_returns_boolean:
  "(\<exists>b. fst (connect eng db) = Inr b)
   \<and> (\<forall>e'. e_authenticate eng (sequelize db) = (Inr (), e') \<longrightarrow>
         connect eng db
           = (Inr True,
              db\<lparr>sequelize := e', calls := calls db @ [Authenticate], isConnected := True,
                 console := console db @ [ConsoleLog ConnectionEstablished]\<rparr>))
   \<and> (\<forall>x e'. e_authenticate eng (sequelize db) = (Inl x, e') \<longrightarrow>
         connect eng db
           = (Inr False,
              db\<lparr>sequelize := e', calls := calls db @ [Authenticate],
                 console := console db @ [ConsoleError UnableToConnect (EngineError x)]\<rparr>)
         \<and> isConnected (snd (connect eng db)) = isConnected db)"
  by (auto simp: connect_def invoke_def console_log_def console_error_def
           split: prod.splits sum.splits)

theorem connect_returns_boolean_witness:
  "connect (counting_engine True) (new_Database 0)
     = (Inr True,
        \<lparr>sequelize = 1, models = [], isConnected = True,
         console = [ConsoleLog ConnectionEstablished], calls = [Authenticate]\<rparr>)
   \<and> connect (counting_engine False) (new_Database 0)
     = (Inr False,
        \<lparr>sequelize = 1, models = [], isConnected = False,
         console = [ConsoleError UnableToConnect (EngineError ''engine failure'')],
         calls = [Authenticate]\<rparr>)"
proof -
  let ?db = "new_Database 0 :: (nat, nat, string) database"
  have accepted: "e_authenticate (counting_engine True) (sequelize ?db) = (Inr (), 1)"
    by (simp add: counting_engine_def answer_def new_Database_def)
  have refused:
    "e_authenticate (counting_engine False) (sequelize ?db) = (Inl ''engine failure'', 1)"
    by (simp add: counting_engine_def answer_def new_Database_def)
  from connect_returns_boolean [of "counting_engine True" ?db] accepted
  have up: "connect (counting_engine True) ?db
      = (Inr True,
         ?db\<lparr>sequelize := 1, calls := calls ?db @ [Authenticate], isConnected := True,
             console := console ?db @ [ConsoleLog ConnectionEstablished]\<rparr>)"
    by blast
  from connect_returns_boolean [of "counting_engine False" ?db] refused
  have down: "connect (counting_engine False) ?db
      = (Inr False,
         ?db\<lparr>sequelize := 1, calls := calls ?db @ [Authenticate],
             console := console ?db @ [ConsoleError UnableToConnect (EngineError ''engine failure'')]\<rparr>)"
    by blast
  from up down show ?thesis by (simp add: new_Database_def)
qed

text \<open>
  C10. \<open>close\<close> never throws. When the engine's \<open>close\<close> succeeds, \<open>isConnected\<close> becomes
  false and one line is logged. When it raises, the error is not passed on: one line goes
  to the error console and \<open>isConnected\<close> keeps the value it had.
\<close>

theorem close_never_throws:
  "fst (close eng db) = Inr ()
   \<and> (\<forall>e'. e_close eng (sequelize db) = (Inr (), e') \<longrightarrow>
         close eng db
           = (Inr (),
              db\<lparr>sequelize := e', calls := calls db @ [Close], isConnected := False,
                 console := console db @ [ConsoleLog ConnectionClosed]\<rparr>))
   \<and> (\<forall>x e'. e_close eng (sequelize db) = (Inl x, e') \<longrightarrow>
         close eng db
           = (Inr (),
              db\<lparr>sequelize := e', calls := calls db @ [Close],
                 console := console db @ [ConsoleError ErrorClosing (EngineError x)]\<rparr>)
         \<and> isConnected (snd (close eng db)) = isConnected db)"
  by (auto simp: close_def invoke_def console_log_def console_error_def
           split: prod.splits sum.splits)

theorem close_never_throws_witness:
  "close (counting_engine True)
     \<lparr>sequelize = 1, models = [], isConnected = True, console = [], calls = []\<rparr>
     = (Inr (),
        \<lparr>sequelize = 2, models = [], isConnected = False,
         console = [ConsoleLog ConnectionClosed], calls = [Close]\<rparr>)
   \<and> close (counting_engine False)
     \<lparr>sequelize = 1, models = [], isConnected = True, console = [], calls = []\<rparr>
     = (Inr (),
        \<lparr>sequelize = 2, models = [], isConnected = True,
         console = [ConsoleError ErrorClosing (EngineError ''engine failure'')],
         calls = [Close]\<rparr>)"
proof -
  let ?db = "\<lparr>sequelize = 1, models = [], isConnected = True, console = [], calls = []\<rparr>
               :: (nat, nat, string) database"
  have closed: "e_close (counting_engine True) (sequelize ?db) = (Inr (), 2)"
    by (simp add: counting_engine_def answer_def)
  have stuck: "e_close (counting_engine False) (sequelize ?db) = (Inl ''engine failure'', 2)"
    by (simp add: counting_engine_def answer_def)
  from close_never_throws [of "counting_engine True" ?db] closed
  have ok: "close (counting_engine True) ?db
      = (Inr (),
         ?db\<lparr>sequelize := 2, calls := calls ?db @ [Close], isConnected := False,
             console := console ?db @ [ConsoleLog ConnectionClosed]\<rparr>)"
    by blast
  from close_never_throws [of "counting_engine False" ?db] stuck
  have failed: "close (counting_engine False) ?db
      = (Inr (),
         ?db\<lparr>sequelize := 2, calls := calls ?db @ [Close],
             console := console ?db @ [ConsoleError ErrorClosing (EngineError ''engine failure'')]\<rparr>)"
    by blast
  from ok failed show ?thesis by simp
qed

section \<open>Properties of the CRUD operations\<close>

text \<open>
  C7. On a registered table, when the engine call behind a CRUD operation raises a value,
  the operation throws that same value. The state it leaves is the one before the call
  but for the engine's own state, the one engine call recorded (there is no second try)
  and one line on the error console: the registry and \<open>isConnected\<close> are as before.
\<close>

theorem engine_error_propagates:
  assumes "get_property (models db) tableName = Model h"
  shows "(\<forall>x e'. e_create eng h d options (sequelize db) = (Inl x, e') \<longrightarrow>
         insert_op eng tableName d options db
           = (Inl (EngineError x), engine_failed (Create h d options) (ErrorInserting tableName) x e' db))
   \<and> (\<forall>x e'. e_bulkCreate eng h ds options (sequelize db) = (Inl x, e') \<longrightarrow>
         insertMany eng tableName ds options db
           = (Inl (EngineError x), engine_failed (BulkCreate h ds options) (ErrorBulkInserting tableName) x e' db))
   \<and> (\<forall>x e'. e_findAll eng h (default_arg [] foptions) (sequelize db) = (Inl x, e') \<longrightarrow>
         find_op eng tableName foptions db
           = (Inl (EngineError x), engine_failed (FindAll h (default_arg [] foptions)) (ErrorFinding tableName) x e' db))
   \<and> (\<forall>x e'. e_findOne eng h (default_arg [] foptions) (sequelize db) = (Inl x, e') \<longrightarrow>
         findOne eng tableName foptions db
           = (Inl (EngineError x), engine_failed (FindOne h (default_arg [] foptions)) (ErrorFindingOne tableName) x e' db))
   \<and> (\<forall>x e'. e_findByPk eng h ident (sequelize db) = (Inl x, e') \<longrightarrow>
         findById eng tableName ident db
           = (Inl (EngineError x), engine_failed (FindByPk h ident) (ErrorFindingById tableName) x e' db))
   \<and> (\<forall>x e'. e_update eng h d (where_options wh options) (sequelize db) = (Inl x, e') \<longrightarrow>
         update eng tableName d wh options db
           = (Inl (EngineError x), engine_failed (Update h d (where_options wh options)) (ErrorUpdating tableName) x e' db))
   \<and> (\<forall>x e'. e_destroy eng h (where_options wh options) (sequelize db) = (Inl x, e') \<longrightarrow>
         delete eng tableName wh options db
           = (Inl (EngineError x), engine_failed (Destroy h (where_options wh options)) (ErrorDeleting tableName) x e' db))
   \<and> (\<forall>x e'. e_count eng h (default_arg [] foptions) (sequelize db) = (Inl x, e') \<longrightarrow>
         count eng tableName foptions db
           = (Inl (EngineError x), engine_failed (Count h (default_arg [] foptions)) (ErrorCounting tableName) x e' db))
   \<and> (\<forall>c m x e'. models (engine_failed c m x e' db) = models db
         \<and> isConnected (engine_failed c m x e' db) = isConnected db
         \<and> calls (engine_failed c m x e' db) = calls db @ [c]
         \<and> console (engine_failed c m x e' db) = console db @ [ConsoleError m (EngineError x)])"
  using assms
  by (simp add: insert_op_def insertMany_def find_op_def findOne_def findById_def update_def
        delete_def count_def invoke_def console_error_def engine_failed_def)

theorem engine_error_propagates_witness:
  "insert_op (counting_engine False) ''User'' [(''name'', JStr ''Ada'')] None
     \<lparr>sequelize = 1, models = [(''User'', 0)], isConnected = True, console = [], calls = []\<rparr>
     = (Inl (EngineError ''engine failure''),
        \<lparr>sequelize = 2, models = [(''User'', 0)], isConnected = True,
         console = [ConsoleError (ErrorInserting ''User'') (EngineError ''engine failure'')],
         calls = [Create 0 [(''name'', JStr ''Ada'')] None]\<rparr>)
   \<and> update (counting_engine False) ''User'' [(''name'', JStr ''Ada'')] (JObj [(''id'', JNum 1)]) None
     \<lparr>sequelize = 1, models = [(''User'', 0)], isConnected = True, console = [], calls = []\<rparr>
     = (Inl (EngineError ''engine failure''),
        \<lparr>sequelize = 2, models = [(''User'', 0)], isConnected = True,
         console = [ConsoleError (ErrorUpdating ''User'') (EngineError ''engine failure'')],
         calls = [Update 0 [(''name'', JStr ''Ada'')] [(''where'', JObj [(''id'', JNum 1)])]]\<rparr>)"
proof -
  let ?db = "\<lparr>sequelize = 1, models = [(''User'', 0)], isConnected = True, console = [],
               calls = []\<rparr> :: (nat, nat, string) database"
  let ?row = "[(''name'', JStr ''Ada'')]"
  let ?wh = "JObj [(''id'', JNum 1)]"
  have registered: "get_property (models ?db) ''User'' = Model 0"
    by (simp add: get_property_def)
  have create_raises:
    "e_create (counting_engine False) 0 ?row None (sequelize ?db) = (Inl ''engine failure'', 2)"
    by (simp add: counting_engine_def answer_def)
  have update_raises:
    "e_update (counting_engine False) 0 ?row (where_options ?wh None) (sequelize ?db)
       = (Inl ''engine failure'', 2)"
    by (simp add: counting_engine_def answer_def)
  note facts = engine_error_propagates [OF registered,
      where eng = "counting_engine False" and d = ?row and options = None and wh = ?wh
        and ds = "[]" and foptions = None and ident = 1]
  from facts create_raises
  have inserted: "insert_op (counting_engine False) ''User'' ?row None ?db
      = (Inl (EngineError ''engine failure''),
         engine_failed (Create 0 ?row None) (ErrorInserting ''User'') ''engine failure'' 2 ?db)"
    by blast
  from facts update_raises
  have updated: "update (counting_engine False) ''User'' ?row ?wh None ?db
      = (Inl (EngineError ''engine failure''),
         engine_failed (Update 0 ?row (where_options ?wh None)) (ErrorUpdating ''User'')
           ''engine failure'' 2 ?db)"
    by blast
  from inserted updated show ?thesis
    by (simp add: engine_failed_def where_options_def spread_opt_def spread_def default_arg_def)
qed

lemma unregistered_is_rejected:
  assumes "get_property (models db) tableName = Undefined"
  shows "insert_op eng tableName d options db = (Inl (TableNotFound tableName), db)"
    and "insertMany eng tableName ds options db = (Inl (TableNotFound tableName), db)"
    and "find_op eng tableName foptions db = (Inl (TableNotFound tableName), db)"
    and "findOne eng tableName foptions db = (Inl (TableNotFound tableName), db)"
    and "findById eng tableName ident db = (Inl (TableNotFound tableName), db)"
    and "update eng tableName d wh options db = (Inl (TableNotFound tableName), db)"
    and "delete eng tableName wh options db = (Inl (TableNotFound tableName), db)"
    and "count eng tableName foptions db = (Inl (TableNotFound tableName), db)"
  using assms
  by (simp_all add: insert_op_def insertMany_def find_op_def findOne_def findById_def
        update_def delete_def count_def)

text \<open>
  C3 fails on the code at the names of the members of \<open>Object.prototype\<close>. On a database
  with no table registered, \<open>insert("constructor", {})\<close> returns an object and logs a
  success, and the other operations throw a \<open>TypeError\<close>, not the table-not-found error.
  No call reaches the engine.
\<close>

theorem unregistered_constructor_is_not_rejected:
  "insert_op eng ''constructor'' [] None (new_Database e)
     = (Inr (JObj []),
        (new_Database e)\<lparr>console := [ConsoleLog (DataInserted ''constructor'')]\<rparr>)
   \<and> insertMany eng ''constructor'' [] None (new_Database e)
     = (Inl TypeError,
        (new_Database e)\<lparr>console := [ConsoleError (ErrorBulkInserting ''constructor'') TypeError]\<rparr>)
   \<and> find_op eng ''constructor'' None (new_Database e)
     = (Inl TypeError,
        (new_Database e)\<lparr>console := [ConsoleError (ErrorFinding ''constructor'') TypeError]\<rparr>)
   \<and> findOne eng ''constructor'' None (new_Database e)
     = (Inl TypeError,
        (new_Database e)\<lparr>console := [ConsoleError (ErrorFindingOne ''constructor'') TypeError]\<rparr>)
   \<and> findById eng ''constructor'' 1 (new_Database e)
     = (Inl TypeError,
        (new_Database e)\<lparr>console := [ConsoleError (ErrorFindingById ''constructor'') TypeError]\<rparr>)
   \<and> update eng ''constructor'' [] (JObj []) None (new_Database e)
     = (Inl TypeError,
        (new_Database e)\<lparr>console := [ConsoleError (ErrorUpdating ''constructor'') TypeError]\<rparr>)
   \<and> delete eng ''constructor'' (JObj []) None (new_Database e)
     = (Inl TypeError,
        (new_Database e)\<lparr>console := [ConsoleError (ErrorDeleting ''constructor'') TypeError]\<rparr>)
   \<and> count eng ''constructor'' None (new_Database e)
     = (Inl TypeError,
        (new_Database e)\<lparr>console := [ConsoleError (ErrorCounting ''constructor'') TypeError]\<rparr>)
   \<and> getTables (new_Database e) = []"
  by (simp add: insert_op_def insertMany_def find_op_def findOne_def findById_def update_def
        delete_def count_def get_property_def object_prototype_keys_def new_Database_def
        inherited_create_def Object_create_def console_log_def console_error_def getTables_def
        own_keys_def)

section \<open>Stability of the registry\<close>

lemma get_property_Model_iff:
  "get_property ms tableName = Model h \<longleftrightarrow> map_of ms tableName = Some h"
  by (simp add: get_property_def split: option.splits)

lemma get_property_Undefined_unbound:
  "get_property ms tableName = Undefined \<Longrightarrow> map_of ms tableName = None"
  by (simp add: get_property_def split: option.splits)

lemma createTable_keeps_entry:
  assumes "map_of (models db) tableName = Some h"
  shows "map_of (models (snd (createTable toLowerCase eng other schema options db))) tableName = Some h"
proof (cases "get_property (models db) other")
  case Undefined
  then have "map_of (models db) other = None"
    by (rule get_property_Undefined_unbound)
  with assms have "other \<noteq> tableName" by auto
  with assms Undefined show ?thesis
    by (simp add: createTable_def invoke_def console_log_def map_of_put_property
          split: prod.splits sum.splits)
next
  case (Model h')
  with assms show ?thesis by (simp add: createTable_def console_log_def)
next
  case (Inherited m)
  with assms show ?thesis by (simp add: createTable_def console_log_def)
qed

lemma perform_keeps_entry:
  assumes "map_of (models db) tableName = Some h"
  shows "map_of (models (perform toLowerCase eng op db)) tableName = Some h"
proof (cases op)
  case (Call_createTable other schema options)
  with assms show ?thesis by (simp add: createTable_keeps_entry)
qed (use assms in \<open>simp_all add: connect_def syncTables_def insert_op_def insertMany_def
        find_op_def findOne_def findById_def update_def delete_def count_def query_def
        close_def invoke_def console_log_def console_error_def
        split: prod.splits sum.splits property.splits\<close>)

lemma perform_all_keeps_entry:
  "map_of (models db) tableName = Some h \<Longrightarrow>
   map_of (models (perform_all toLowerCase eng ops db)) tableName = Some h"
  unfolding perform_all_def
  by (induction ops arbitrary: db) (simp_all add: perform_keeps_entry)

lemma resolved_calls:
  assumes "get_property (models db) tableName = Model h"
  shows "calls (snd (insert_op eng tableName d options db)) = calls db @ [Create h d options]"
    and "calls (snd (insertMany eng tableName ds options db)) = calls db @ [BulkCreate h ds options]"
    and "calls (snd (find_op eng tableName foptions db))
           = calls db @ [FindAll h (default_arg [] foptions)]"
    and "calls (snd (findOne eng tableName foptions db))
           = calls db @ [FindOne h (default_arg [] foptions)]"
    and "calls (snd (findById eng tableName ident db)) = calls db @ [FindByPk h ident]"
    and "calls (snd (update eng tableName d wh options db))
           = calls db @ [Update h d (where_options wh options)]"
    and "calls (snd (delete eng tableName wh options db))
           = calls db @ [Destroy h (where_options wh options)]"
    and "calls (snd (count eng tableName foptions db))
           = calls db @ [Count h (default_arg [] foptions)]"
  using assms
  by (simp_all add: insert_op_def insertMany_def find_op_def findOne_def findById_def
        update_def delete_def count_def invoke_def console_log_def console_error_def
        split: prod.splits sum.splits)

text \<open>
  C9. Once a table name resolves to a handle, it resolves to that handle after any
  sequence of calls of the public methods: \<open>getModel\<close> returns it, \<open>getTableInfo\<close>
  describes it, and each CRUD operation makes its engine call on it. No public method
  removes or replaces an entry of the registry.
\<close>

theorem registry_entries_are_stable:
  assumes "get_property (models db) tableName = Model h"
  shows
    "(let later = perform_all toLowerCase eng ops db in
        getModel tableName later = Model h
      \<and> map_of (models later) tableName = Some h
      \<and> getTableInfo eng tableName later
          = Some [(''tableName'', JStr tableName),
                  (''attributes'', e_rawAttributes eng h (sequelize later)),
                  (''associations'', e_associations eng h (sequelize later))]
      \<and> calls (snd (insert_op eng tableName d options later))
          = calls later @ [Create h d options]
      \<and> calls (snd (insertMany eng tableName ds options later))
          = calls later @ [BulkCreate h ds options]
      \<and> calls (snd (find_op eng tableName foptions later))
          = calls later @ [FindAll h (default_arg [] foptions)]
      \<and> calls (snd (findOne eng tableName foptions later))
          = calls later @ [FindOne h (default_arg [] foptions)]
      \<and> calls (snd (findById eng tableName ident later))
          = calls later @ [FindByPk h ident]
      \<and> calls (snd (update eng tableName d wh options later))
          = calls later @ [Update h d (where_options wh options)]
      \<and> calls (snd (delete eng tableName wh options later))
          = calls later @ [Destroy h (where_options wh options)]
      \<and> calls (snd (count eng tableName foptions later))
          = calls later @ [Count h (default_arg [] foptions)])"
proof -
  define later where "later = perform_all toLowerCase eng ops db"
  from assms have "map_of (models db) tableName = Some h"
    by (simp add: get_property_Model_iff)
  then have entry: "map_of (models later) tableName = Some h"
    unfolding later_def by (rule perform_all_keeps_entry)
  then have resolved: "get_property (models later) tableName = Model h"
    by (simp add: get_property_Model_iff)
  have info: "getTableInfo eng tableName later
      = Some [(''tableName'', JStr tableName),
              (''attributes'', e_rawAttributes eng h (sequelize later)),
              (''associations'', e_associations eng h (sequelize later))]"
    by (simp add: getTableInfo_def resolved)
  show ?thesis
    unfolding Let_def later_def [symmetric]
    using entry resolved info resolved_calls [OF resolved, of eng]
    by (simp add: getModel_def)
qed

theorem registry_entries_are_stable_witness:
  "getModel ''User''
     (perform_all ascii_toLowerCase (counting_engine True)
        [Call_createTable ''User'' [(''id'', Shorthand (DataType ''STRING''))] None,
         Call_createTable ''Post'' [] None,
         Call_findById ''User'' 7,
         Call_close]
        \<lparr>sequelize = 1, models = [(''User'', 0)], isConnected = True, console = [],
         calls = []\<rparr>) = Model 0
   \<and> getTables
       (perform_all ascii_toLowerCase (counting_engine True)
          [Call_createTable ''User'' [(''id'', Shorthand (DataType ''STRING''))] None,
           Call_createTable ''Post'' [] None,
           Call_findById ''User'' 7,
           Call_close]
          \<lparr>sequelize = 1, models = [(''User'', 0)], isConnected = True, console = [],
           calls = []\<rparr>) = [''User'', ''Post'']"
proof -
  let ?db = "\<lparr>sequelize = 1, models = [(''User'', 0)], isConnected = True, console = [],
               calls = []\<rparr> :: (nat, nat, string) database"
  let ?ops = "[Call_createTable ''User'' [(''id'', Shorthand (DataType ''STRING''))] None,
               Call_createTable ''Post'' [] None,
               Call_findById ''User'' 7,
               Call_close]"
  have registered: "get_property (models ?db) ''User'' = Model 0"
    by (simp add: get_property_def)
  have tables: "getTables (perform_all ascii_toLowerCase (counting_engine True) ?ops ?db) = [''User'', ''Post'']"
    by (simp add: perform_all_def run_defs findById_def close_def getTables_def own_keys_def
          is_array_index_def is_digit_def)
  from registry_entries_are_stable [OF registered, of ascii_toLowerCase "counting_engine True" ?ops] tables
  show ?thesis by (simp add: Let_def)
qed

section \<open>Properties of the translator and of paginated search\<close>





lemma translate_operator_failure:
  "translate_operator opr v = Inl e \<Longrightarrow> e = TranslationError"
  by (cases e) (auto simp: translate_operator_def split: if_splits jsval.splits list.splits)

lemma translate_operator_accepted:
  "accepted_operator (opr, v) \<Longrightarrow> \<exists>a. translate_operator opr v = Inr a"
  by (auto simp: accepted_operator_def translate_operator_def operator_names_def
           split: jsval.splits list.splits)

lemma translate_operator_unknown:
  "opr \<notin> set operator_names \<Longrightarrow> translate_operator opr v = Inl TranslationError"
  by (simp add: translate_operator_def operator_names_def)

lemma collect_all_right:
  "(\<And>r. r \<in> set rs \<Longrightarrow> \<exists>x. r = Inr x) \<Longrightarrow> \<exists>xs. collect rs = Inr xs"
proof (induction rs)
  case Nil
  then show ?case by simp
next
  case (Cons r rs)
  have "r \<in> set (r # rs)" by simp
  then obtain x where x: "r = Inr x" using Cons.prems by blast
  have "\<exists>xs. collect rs = Inr xs"
  proof (rule Cons.IH)
    fix r' assume "r' \<in> set rs"
    then have "r' \<in> set (r # rs)" by simp
    then show "\<exists>x. r' = Inr x" by (rule Cons.prems)
  qed
  then obtain xs where "collect rs = Inr xs" by blast
  with x show ?case by simp
qed

lemma collect_some_left:
  assumes "Inl e \<in> set rs"
    and "\<And>e'. Inl e' \<in> set rs \<Longrightarrow> e' = e"
  shows "collect rs = Inl e"
  using assms
proof (induction rs)
  case Nil
  then show ?case by simp
next
  case (Cons r rs)
  show ?case
  proof (cases r)
    case (Inl e')
    then have "Inl e' \<in> set (r # rs)" by simp
    then have "e' = e" by (rule Cons.prems(2))
    with Inl show ?thesis by simp
  next
    case (Inr x)
    with Cons.prems(1) have here: "Inl e \<in> set rs" by auto
    have "collect rs = Inl e"
    proof (rule Cons.IH [OF here])
      fix e' assume "Inl e' \<in> set rs"
      then have "Inl e' \<in> set (r # rs)" by simp
      then show "e' = e" by (rule Cons.prems(2))
    qed
    with Inr show ?thesis by simp
  qed
qed

lemma translated_entry:
  assumes "r \<in> set (concat (map translate_field m))"
  obtains field operators opr v
  where "(field, operators) \<in> set m" and "(opr, v) \<in> set operators"
    and "r = (case translate_operator opr v of Inl e \<Rightarrow> Inl e | Inr a \<Rightarrow> Inr (field, a))"
proof -
  from assms obtain entry where entry: "entry \<in> set m" and r: "r \<in> set (translate_field entry)"
    by auto
  obtain field operators where fo: "entry = (field, operators)" by (cases entry)
  from r fo obtain pair where pair: "pair \<in> set operators"
    and rp: "r = (case pair of (opr, v) \<Rightarrow> case translate_operator opr v of
                        Inl e \<Rightarrow> Inl e | Inr a \<Rightarrow> Inr (field, a))"
    by (auto simp: translate_field_def)
  obtain opr v where ov: "pair = (opr, v)" by (cases pair)
  show ?thesis
  proof (rule that)
    from entry fo show "(field, operators) \<in> set m" by simp
    from pair ov show "(opr, v) \<in> set operators" by simp
    from rp ov
    show "r = (case translate_operator opr v of Inl e \<Rightarrow> Inl e | Inr a \<Rightarrow> Inr (field, a))"
      by simp
  qed
qed

lemma entry_translated:
  assumes "(field, operators) \<in> set m" and "(opr, v) \<in> set operators"
  shows "(case translate_operator opr v of Inl e \<Rightarrow> Inl e | Inr a \<Rightarrow> Inr (field, a))
           \<in> set (concat (map translate_field m))"
proof -
  let ?one = "\<lambda>(opr, v). case translate_operator opr v of
                 Inl e \<Rightarrow> Inl e | Inr a \<Rightarrow> Inr (field, a)"
  have "set (translate_field (field, operators)) = ?one ` set operators"
    by (simp add: translate_field_def)
  moreover from assms(2) have "?one (opr, v) \<in> ?one ` set operators"
    by (rule imageI)
  ultimately
  have "(case translate_operator opr v of Inl e \<Rightarrow> Inl e | Inr a \<Rightarrow> Inr (field, a))
          \<in> set (translate_field (field, operators))"
    by simp
  with assms(1) show ?thesis by auto
qed

lemma operator_entry:
  assumes "(opr, v) \<in> set (operators_of c)"
  obtains m field operators
  where "c = OperatorMap m" and "(field, operators) \<in> set m" and "(opr, v) \<in> set operators"
  using assms by (cases c) auto

lemma translate_condition_accepted:
  assumes "list_all accepted_operator (operators_of c)"
  shows "\<exists>p. translate_condition c = Inr p"
proof (cases c)
  case (OperatorMap m)
  have "\<exists>x. r = Inr x" if "r \<in> set (concat (map translate_field m))" for r
  proof -
    from that obtain field operators opr v
      where "(field, operators) \<in> set m" and "(opr, v) \<in> set operators"
        and r: "r = (case translate_operator opr v of Inl e \<Rightarrow> Inl e | Inr a \<Rightarrow> Inr (field, a))"
      by (rule translated_entry)
    then have "(opr, v) \<in> set (operators_of c)"
      using OperatorMap by force
    with assms have "accepted_operator (opr, v)"
      by (simp add: list_all_iff)
    then obtain a where "translate_operator opr v = Inr a"
      using translate_operator_accepted by blast
    with r show ?thesis by simp
  qed
  then have "\<exists>xs. collect (concat (map translate_field m)) = Inr xs"
    by (rule collect_all_right)
  with OperatorMap show ?thesis by simp
qed simp_all

lemma translate_condition_unknown:
  assumes "(opr, v) \<in> set (operators_of c)" and "opr \<notin> set operator_names"
  shows "translate_condition c = Inl TranslationError"
proof -
  from assms(1) obtain m field operators
    where c: "c = OperatorMap m" and "(field, operators) \<in> set m" "(opr, v) \<in> set operators"
    by (rule operator_entry)
  moreover have "translate_operator opr v = Inl TranslationError"
    using assms(2) by (rule translate_operator_unknown)
  ultimately have present: "Inl TranslationError \<in> set (concat (map translate_field m))"
    using entry_translated [of field operators m opr v] by simp
  have only: "e' = TranslationError" if "Inl e' \<in> set (concat (map translate_field m))" for e'
  proof -
    from that obtain field' operators' opr' v'
      where "(field', operators') \<in> set m" and "(opr', v') \<in> set operators'"
        and "Inl e' = (case translate_operator opr' v' of Inl e \<Rightarrow> Inl e | Inr a \<Rightarrow> Inr (field', a))"
      by (rule translated_entry)
    then have "translate_operator opr' v' = Inl e'"
      by (cases "translate_operator opr' v'") auto
    then show ?thesis by (rule translate_operator_failure)
  qed
  from collect_some_left [OF present only] c show ?thesis by simp
qed

text \<open>
  C5 as stated fails in the translator the spec describes: \<open>between\<close> is one of the eight
  operator names, and with a single bound its translation is an error.
\<close>

theorem translation_total_counterexample:
  "''between'' \<in> set operator_names
   \<and> translate (Plain (OperatorMap [(''age'', [(''between'', JArr [JNum 18])])]))
       = Inl TranslationError"
  by (simp add: operator_names_def translate_field_def translate_operator_def)

text \<open>
  C5, amended. Translation succeeds for every condition whose operator names are among
  the eight, whose \<open>between\<close> values have exactly two bounds and whose \<open>in\<close> values are
  sequences of scalars (and, for the paginated wrapper, when page and page size are
  positive), whatever the field names. For every condition that holds an operator name
  outside the eight, translation fails with a translation error.
\<close>

theorem translation_succeeds_or_fails:
  "(list_all accepted_operator (operators_of c) \<longrightarrow>
      (\<exists>p. translate (Plain c) = Inr (p, None))
      \<and> (0 < pg \<and> 0 < pageSize \<longrightarrow>
           (\<exists>p. translate (Paginated c pg pageSize)
                  = Inr (p, Some ((pg - 1) * pageSize, pageSize)))))
   \<and> ((\<exists>entry \<in> set (operators_of c). fst entry \<notin> set operator_names) \<longrightarrow>
        translate (Plain c) = Inl TranslationError
        \<and> translate (Paginated c pg pageSize) = Inl TranslationError)"
proof (intro conjI impI)
  assume "list_all accepted_operator (operators_of c)"
  then obtain p where p: "translate_condition c = Inr p"
    using translate_condition_accepted by blast
  then show "\<exists>p. translate (Plain c) = Inr (p, None)" by simp
  assume "0 < pg \<and> 0 < pageSize"
  with p show "\<exists>p. translate (Paginated c pg pageSize)
      = Inr (p, Some ((pg - 1) * pageSize, pageSize))"
    by simp
next
  assume "\<exists>entry \<in> set (operators_of c). fst entry \<notin> set operator_names"
  then obtain opr v where "(opr, v) \<in> set (operators_of c)" "opr \<notin> set operator_names"
    by force
  then have failed: "translate_condition c = Inl TranslationError"
    by (rule translate_condition_unknown)
  then show "translate (Plain c) = Inl TranslationError" by simp
  from failed show "translate (Paginated c pg pageSize) = Inl TranslationError" by simp
qed

theorem translation_succeeds_or_fails_witness:
  "(\<exists>p. translate (Paginated (OperatorMap [(''age'', [(''gte'', JNum 18), (''lte'', JNum 65)])]) 2 10)
          = Inr (p, Some (10, 10)))
   \<and> translate (Plain (OperatorMap [(''age'', [(''above'', JNum 18)])])) = Inl TranslationError"
proof -
  let ?good = "OperatorMap [(''age'', [(''gte'', JNum 18), (''lte'', JNum 65)])]"
  let ?bad = "OperatorMap [(''age'', [(''above'', JNum 18)])]"
  have accepted: "list_all accepted_operator (operators_of ?good)"
    by (simp add: accepted_operator_def operator_names_def)
  have unknown: "\<exists>entry \<in> set (operators_of ?bad). fst entry \<notin> set operator_names"
    by (simp add: operator_names_def)
  from translation_succeeds_or_fails [of ?good 2 10] accepted
  have "\<exists>p. translate (Paginated ?good 2 10) = Inr (p, Some ((2 - 1) * 10, 10))"
    by simp
  moreover from translation_succeeds_or_fails [of ?bad 1 1] unknown
  have "translate (Plain ?bad) = Inl TranslationError"
    by blast
  ultimately show ?thesis by simp
qed









end
